theory Spec2Isabelle
  imports Complex_Main "HOL-Library.AList" "HOL-Library.Multiset"
begin

section \<open>Network analyzer of the propagation tracker\<close>

text \<open>
  A shallow embedding of \<^verbatim>\<open>analyzers/network_analyzer.py\<close> (class
  \<^verbatim>\<open>NetworkAnalyzer\<close>) together with the rows of \<^verbatim>\<open>database/models.py\<close>
  and the result classes of \<^verbatim>\<open>database/dto.py\<close> it reads and builds.

  Conventions of the embedding.
  \<^item> A \<^verbatim>\<open>datetime\<close> is the integer number of microseconds since the epoch (UTC),
    which is the resolution of the Python type; \<^verbatim>\<open>total_seconds()\<close> divides by
    \<open>10\<^sup>6\<close>.
  \<^item> A Python \<^verbatim>\<open>float\<close> is a real number: arithmetic is exact.
  \<^item> Identifiers are strings, so \<^verbatim>\<open>str(x)\<close> of an identifier is the identifier.
  \<^item> A nullable column is an \<open>option\<close>; Python truthiness is written out where
    the source tests a value instead of comparing it with \<^verbatim>\<open>None\<close>.
  \<^item> A Python \<^verbatim>\<open>dict\<close> keeps insertion order: it is an association list with
    distinct keys, updated by \<open>AList.update\<close> (in place when the key is present,
    appended otherwise) and read by \<open>map_of\<close>.
  \<^item> An exception is a value: an operation that may raise returns \<open>exn + 'a\<close>
    (\<open>Inl\<close> the exception), and an operation on the analyzer that may raise
    returns the analyzer as it is left together with that outcome.
  \<^item> Record fields carry a short prefix of their class, since several classes share
    field names.
\<close>

subsection \<open>Rows of the store\<close>

type_synonym datetime = int

record source =
  s_id :: string
  s_name :: string
  s_source_type :: string
  s_language :: "string option"
  s_is_doppelganger :: bool
  s_is_amplifier :: bool
  s_is_active :: bool

record content =
  c_id :: string
  c_source_id :: "string option"
  c_published_at :: "datetime option"

record propagation =
  p_source_content_id :: string
  p_target_content_id :: string
  p_propagation_type :: string
  p_similarity_score :: "real option"
  p_mutation_detected :: bool
  p_time_delta_seconds :: "int option"
  p_created_at :: datetime

text \<open>What the session answers: the three tables the analyzer queries.\<close>

record store =
  st_sources :: "source list"
  st_propagations :: "propagation list"
  st_contents :: "content list"

subsection \<open>Python truthiness\<close>

definition truthy_str :: "string option \<Rightarrow> bool" where
  "truthy_str v = (case v of None \<Rightarrow> False | Some s \<Rightarrow> s \<noteq> [])"

definition truthy_float :: "real option \<Rightarrow> bool" where
  "truthy_float v = (case v of None \<Rightarrow> False | Some x \<Rightarrow> x \<noteq> 0)"

definition truthy_int :: "int option \<Rightarrow> bool" where
  "truthy_int v = (case v of None \<Rightarrow> False | Some x \<Rightarrow> x \<noteq> 0)"

text \<open>\<^verbatim>\<open>x or 0\<close> for a nullable number.\<close>

definition float_or_0 :: "real option \<Rightarrow> real" where
  "float_or_0 v = (if truthy_float v then the v else 0)"

definition int_or_0 :: "int option \<Rightarrow> int" where
  "int_or_0 v = (if truthy_int v then the v else 0)"

subsection \<open>Directed graphs (\<^verbatim>\<open>networkx.DiGraph\<close>)\<close>

text \<open>
  Node attributes are the keyword arguments of \<^verbatim>\<open>add_node\<close>; a key that was never
  set is \<open>None\<close>. The attribute dictionary of a node created by \<^verbatim>\<open>add_edge\<close> is
  empty.
\<close>

record node_attrs =
  a_name :: "string option"
  a_source_type :: "string option"
  a_language :: "string option"
  a_is_doppelganger :: "bool option"
  a_is_amplifier :: "bool option"

definition no_attrs :: node_attrs where
  "no_attrs = \<lparr>a_name = None, a_source_type = None, a_language = None,
     a_is_doppelganger = None, a_is_amplifier = None\<rparr>"

definition or_else :: "'a option \<Rightarrow> 'a option \<Rightarrow> 'a option" where
  "or_else new old = (case new of None \<Rightarrow> old | Some v \<Rightarrow> Some v)"

text \<open>\<^verbatim>\<open>dict.update\<close> on the attribute dictionary: keys given win, the others stay.\<close>

definition update_attrs :: "node_attrs \<Rightarrow> node_attrs \<Rightarrow> node_attrs" where
  "update_attrs old new =
     \<lparr>a_name = or_else (a_name new) (a_name old),
      a_source_type = or_else (a_source_type new) (a_source_type old),
      a_language = or_else (a_language new) (a_language old),
      a_is_doppelganger = or_else (a_is_doppelganger new) (a_is_doppelganger old),
      a_is_amplifier = or_else (a_is_amplifier new) (a_is_amplifier old)\<rparr>"

text \<open>
  The edge data \<open>'e\<close> is the whole keyword dictionary of \<^verbatim>\<open>add_edge\<close>; both
  builders pass every key on every call, so updating the dictionary of an
  existing edge replaces it.
\<close>

record 'e digraph =
  nodes :: "(string \<times> node_attrs) list"
  edges :: "((string \<times> string) \<times> 'e) list"

definition empty_graph :: "'e digraph" where
  "empty_graph = \<lparr>nodes = [], edges = []\<rparr>"

definition node_ids :: "'e digraph \<Rightarrow> string list" where
  "node_ids g = map fst (nodes g)"

definition number_of_nodes :: "'e digraph \<Rightarrow> nat" where
  "number_of_nodes g = length (nodes g)"

definition number_of_edges :: "'e digraph \<Rightarrow> nat" where
  "number_of_edges g = length (edges g)"

definition add_node :: "string \<Rightarrow> node_attrs \<Rightarrow> 'e digraph \<Rightarrow> 'e digraph" where
  "add_node n attrs g =
     g\<lparr>nodes := AList.update n
         (update_attrs (case map_of (nodes g) n of None \<Rightarrow> no_attrs | Some old \<Rightarrow> old) attrs)
         (nodes g)\<rparr>"

definition add_edge :: "string \<Rightarrow> string \<Rightarrow> 'e \<Rightarrow> 'e digraph \<Rightarrow> 'e digraph" where
  "add_edge u v d g =
     (let g1 = add_node u no_attrs g;
          g2 = add_node v no_attrs g1
      in g2\<lparr>edges := AList.update (u, v) d (edges g2)\<rparr>)"

definition node_attrs_of :: "'e digraph \<Rightarrow> string \<Rightarrow> node_attrs" where
  "node_attrs_of g n = (case map_of (nodes g) n of None \<Rightarrow> no_attrs | Some a \<Rightarrow> a)"

definition edge_data :: "'e digraph \<Rightarrow> string \<Rightarrow> string \<Rightarrow> 'e option" where
  "edge_data g u v = map_of (edges g) (u, v)"

subsection \<open>Exceptions\<close>

text \<open>A Python exception, by the name of its class.\<close>

datatype exn = Exn string

subsection \<open>The mapped class \<^verbatim>\<open>Propagation\<close>\<close>

text \<open>
  \<^verbatim>\<open>database/models.py\<close> declares the columns of class \<^verbatim>\<open>Propagation\<close> and no
  relationship: the table of its relationships is empty. A relationship, were
  one declared, would give the content a row refers to. Looking up a name the
  class does not declare, as \<^verbatim>\<open>Propagation.source_content\<close> does, raises
  \<^verbatim>\<open>AttributeError\<close>.
\<close>

type_synonym relationship = "store \<Rightarrow> propagation \<Rightarrow> content option"

definition propagation_relationships :: "(string \<times> relationship) list" where
  "propagation_relationships = []"

definition propagation_relationship :: "string \<Rightarrow> exn + relationship" where
  "propagation_relationship name =
     (case map_of propagation_relationships name of
        None \<Rightarrow> Inl (Exn ''AttributeError'')
      | Some r \<Rightarrow> Inr r)"

text \<open>A row of the query with the two contents \<^verbatim>\<open>joinedload\<close> attaches to it.\<close>

record loaded_propagation =
  lp_row :: propagation
  lp_source_content :: "content option"
  lp_target_content :: "content option"

subsection \<open>The analyzer and its two graphs\<close>

record content_edge =
  e_propagation_type :: string
  e_similarity :: real
  e_mutation :: bool
  e_time_delta :: int

record analyzer =
  content_graph :: "content_edge digraph"
  source_graph :: "int digraph"

definition init_analyzer :: analyzer where
  "init_analyzer = \<lparr>content_graph = empty_graph, source_graph = empty_graph\<rparr>"

text \<open>
  \<^verbatim>\<open>datetime.utcnow() - timedelta(days=days_back)\<close>. A \<^verbatim>\<open>timedelta\<close> holds at
  most 999999999 days, and a \<^verbatim>\<open>datetime\<close> lies between the years 1 and 9999;
  outside either range Python raises \<^verbatim>\<open>OverflowError\<close>.
\<close>

definition datetime_min :: datetime where
  "datetime_min = - 62135596800000000"

definition datetime_max :: datetime where
  "datetime_max = 253402300799999999"

definition timedelta_days :: "int \<Rightarrow> exn + int" where
  "timedelta_days days =
     (if - 999999999 \<le> days \<and> days \<le> 999999999 then Inr (days * 86400000000)
      else Inl (Exn ''OverflowError''))"

definition cutoff_date :: "datetime \<Rightarrow> int \<Rightarrow> exn + datetime" where
  "cutoff_date now days_back =
     (case timedelta_days days_back of
        Inl e \<Rightarrow> Inl e
      | Inr delta \<Rightarrow>
          (if datetime_min \<le> now - delta \<and> now - delta \<le> datetime_max then Inr (now - delta)
           else Inl (Exn ''OverflowError'')))"

text \<open>
  The query the two builders and the pattern analysis run: the options
  \<^verbatim>\<open>joinedload(Propagation.source_content)\<close> and
  \<^verbatim>\<open>joinedload(Propagation.target_content)\<close> are evaluated first, while the query
  is built; then the links created since the cutoff are loaded.
\<close>

definition query_propagations :: "store \<Rightarrow> datetime \<Rightarrow> exn + loaded_propagation list" where
  "query_propagations st cutoff =
     (case propagation_relationship ''source_content'' of
        Inl e \<Rightarrow> Inl e
      | Inr source_content \<Rightarrow>
          (case propagation_relationship ''target_content'' of
             Inl e \<Rightarrow> Inl e
           | Inr target_content \<Rightarrow>
               Inr (map (\<lambda>p. \<lparr>lp_row = p,
                                lp_source_content = source_content st p,
                                lp_target_content = target_content st p\<rparr>)
                      (filter (\<lambda>p. cutoff \<le> p_created_at p) (st_propagations st)))))"

definition content_step :: "real \<Rightarrow> loaded_propagation \<Rightarrow> content_edge digraph \<Rightarrow> content_edge digraph" where
  "content_step min_similarity loaded g =
     (let prop = lp_row loaded
      in if truthy_float (p_similarity_score prop) \<and> the (p_similarity_score prop) < min_similarity
         then g
         else add_edge (p_source_content_id prop) (p_target_content_id prop)
                \<lparr>e_propagation_type = p_propagation_type prop,
                 e_similarity = float_or_0 (p_similarity_score prop),
                 e_mutation = p_mutation_detected prop,
                 e_time_delta = int_or_0 (p_time_delta_seconds prop)\<rparr> g)"

text \<open>
  The graph is cleared first; an exception of the cutoff or of the query leaves
  it cleared.
\<close>

definition build_content_graph ::
  "store \<Rightarrow> datetime \<Rightarrow> int \<Rightarrow> real \<Rightarrow> analyzer \<Rightarrow> analyzer \<times> (exn + content_edge digraph)" where
  "build_content_graph st now days_back min_similarity self =
     (let self1 = self\<lparr>content_graph := empty_graph\<rparr>
      in case cutoff_date now days_back of
           Inl e \<Rightarrow> (self1, Inl e)
         | Inr cutoff \<Rightarrow>
             (case query_propagations st cutoff of
                Inl e \<Rightarrow> (self1, Inl e)
              | Inr propagations \<Rightarrow>
                  (let g = fold (content_step min_similarity) propagations empty_graph
                   in (self\<lparr>content_graph := g\<rparr>, Inr g))))"

definition source_node_attrs :: "source \<Rightarrow> node_attrs" where
  "source_node_attrs s =
     \<lparr>a_name = Some (s_name s),
      a_source_type = Some (s_source_type s),
      a_language = Some (if truthy_str (s_language s) then the (s_language s) else ''unknown''),
      a_is_doppelganger = Some (s_is_doppelganger s),
      a_is_amplifier = Some (s_is_amplifier s)\<rparr>"

definition query_active_sources :: "store \<Rightarrow> source list" where
  "query_active_sources st = filter s_is_active (st_sources st)"

text \<open>
  The pair of owning sources a link is counted under, if it is counted: both
  contents loaded, both owners truthy and different.
\<close>

definition counted_pair :: "loaded_propagation \<Rightarrow> (string \<times> string) option" where
  "counted_pair prop =
     (case (lp_source_content prop, lp_target_content prop) of
        (Some source_content, Some target_content) \<Rightarrow>
          (let src_id = c_source_id source_content;
               tgt_id = c_source_id target_content
           in if truthy_str src_id \<and> truthy_str tgt_id \<and> src_id \<noteq> tgt_id
              then Some (the src_id, the tgt_id) else None)
      | _ \<Rightarrow> None)"

text \<open>\<^verbatim>\<open>d[key] += 1\<close> on a \<^verbatim>\<open>defaultdict(int)\<close>\<close>

definition increment :: "'k \<Rightarrow> ('k \<times> int) list \<Rightarrow> ('k \<times> int) list" where
  "increment k ew = AList.update k ((case map_of ew k of None \<Rightarrow> 0 | Some c \<Rightarrow> c) + 1) ew"

definition count_step :: "loaded_propagation \<Rightarrow> ((string \<times> string) \<times> int) list \<Rightarrow> ((string \<times> string) \<times> int) list" where
  "count_step prop ew = (case counted_pair prop of None \<Rightarrow> ew | Some k \<Rightarrow> increment k ew)"

definition count_propagations :: "loaded_propagation list \<Rightarrow> ((string \<times> string) \<times> int) list" where
  "count_propagations props = fold count_step props []"

definition add_weighted_edge :: "((string \<times> string) \<times> int) \<Rightarrow> int digraph \<Rightarrow> int digraph" where
  "add_weighted_edge kw g = add_edge (fst (fst kw)) (snd (fst kw)) (snd kw) g"

text \<open>
  The graph is cleared and the nodes of the active sources are added before
  the cutoff and the query are evaluated; an exception of either leaves the
  graph with these nodes and no edge.
\<close>

definition build_source_graph ::
  "store \<Rightarrow> datetime \<Rightarrow> int \<Rightarrow> analyzer \<Rightarrow> analyzer \<times> (exn + int digraph)" where
  "build_source_graph st now days_back self =
     (let g0 = fold (\<lambda>s. add_node (s_id s) (source_node_attrs s)) (query_active_sources st) empty_graph;
          self1 = self\<lparr>source_graph := g0\<rparr>
      in case cutoff_date now days_back of
           Inl e \<Rightarrow> (self1, Inl e)
         | Inr cutoff \<Rightarrow>
             (case query_propagations st cutoff of
                Inl e \<Rightarrow> (self1, Inl e)
              | Inr propagations \<Rightarrow>
                  (let edge_weights = count_propagations propagations;
                       g = fold add_weighted_edge edge_weights g0
                   in (self\<lparr>source_graph := g\<rparr>, Inr g))))"

subsection \<open>Library calls that may raise\<close>

text \<open>
  PageRank, betweenness centrality, the Louvain partition and the connectivity
  check are calls into \<^verbatim>\<open>networkx\<close> and \<^verbatim>\<open>community\<close>; the analyzer wraps each in
  \<^verbatim>\<open>try\<close>/\<^verbatim>\<open>except Exception\<close>. They are parameters of the model: each returns
  either the exception it raised or its value.
\<close>

text \<open>
  An undirected graph keeps one entry per unordered pair of nodes, under the
  orientation that was stored first. The undirected copy of a directed graph
  receives the edges node by node, in the order of the nodes, and for each node
  in the order of its outgoing edges; the data of an edge stored again replaces
  the data stored before.
\<close>

record 'e ugraph =
  un_nodes :: "(string \<times> node_attrs) list"
  un_edges :: "((string \<times> string) \<times> 'e) list"

definition add_undirected_edge :: "((string \<times> string) \<times> 'e) \<Rightarrow> ((string \<times> string) \<times> 'e) list \<Rightarrow> ((string \<times> string) \<times> 'e) list" where
  "add_undirected_edge kd es =
     (let u = fst (fst kd); v = snd (fst kd)
      in if map_of es (v, u) \<noteq> None then AList.update (v, u) (snd kd) es
         else AList.update (u, v) (snd kd) es)"

definition edges_by_node :: "'e digraph \<Rightarrow> ((string \<times> string) \<times> 'e) list" where
  "edges_by_node g = concat (map (\<lambda>u. filter (\<lambda>e. fst (fst e) = u) (edges g)) (node_ids g))"

definition to_undirected :: "'e digraph \<Rightarrow> 'e ugraph" where
  "to_undirected g = \<lparr>un_nodes = nodes g, un_edges = fold add_undirected_edge (edges_by_node g) []\<rparr>"

record library =
  nx_pagerank :: "int digraph \<Rightarrow> exn + (string \<rightharpoonup> real)"
  nx_betweenness_centrality :: "int digraph \<Rightarrow> exn + (string \<rightharpoonup> real)"
  best_partition :: "int ugraph \<Rightarrow> exn + (string \<times> int) list"
  nx_is_connected :: "int ugraph \<Rightarrow> exn + bool"

text \<open>
  Modelled from the spec: \<^verbatim>\<open>networkx.density\<close> is library code outside the
  repository. For a directed graph it is edges / (nodes \<sqdot> (nodes \<midarrow> 1)), and 0 when the
  graph has no edge or fewer than 2 nodes.
\<close>

definition nx_density :: "'e digraph \<Rightarrow> real" where
  "nx_density g =
     (let n = number_of_nodes g; m = number_of_edges g
      in if m = 0 \<or> n \<le> 1 then 0 else real m / (real n * (real n - 1)))"

text \<open>
  Modelled from the spec: \<^verbatim>\<open>networkx.is_connected\<close> is library code outside the
  repository. It raises on the graph without nodes; otherwise it tells whether
  every node reaches every other node along undirected edges.
\<close>

definition adjacency :: "'e ugraph \<Rightarrow> (string \<times> string) list" where
  "adjacency ug = map fst (un_edges ug) @ map (\<lambda>e. (snd (fst e), fst (fst e))) (un_edges ug)"

definition connected :: "'e ugraph \<Rightarrow> bool" where
  "connected ug =
     (\<forall>u \<in> set (map fst (un_nodes ug)). \<forall>v \<in> set (map fst (un_nodes ug)).
        u = v \<or> (u, v) \<in> (set (adjacency ug))\<^sup>+)"

definition networkx_is_connected :: "'e ugraph \<Rightarrow> exn + bool" where
  "networkx_is_connected ug =
     (if un_nodes ug = [] then Inl (Exn ''NetworkXPointlessConcept'') else Inr (connected ug))"

subsection \<open>Community detection\<close>

definition detect_communities :: "library \<Rightarrow> analyzer \<Rightarrow> int ugraph option \<Rightarrow> (string \<times> int) list" where
  "detect_communities lib self graph_arg =
     (let graph = (case graph_arg of None \<Rightarrow> to_undirected (source_graph self) | Some g \<Rightarrow> g)
      in if length (un_nodes graph) < 2 then []
         else (case best_partition lib graph of
                 Inr part \<Rightarrow> part
               | Inl e \<Rightarrow> []))"

subsection \<open>Superspreaders\<close>

record superspreader_info =
  ss_id :: string
  ss_name :: string
  ss_source_type :: string
  ss_out_degree :: nat
  ss_pagerank :: real
  ss_betweenness :: real
  ss_score :: real
  ss_is_doppelganger :: bool

definition out_degree :: "'e digraph \<Rightarrow> string \<Rightarrow> nat" where
  "out_degree g n = length (filter (\<lambda>e. fst (fst e) = n) (edges g))"

definition in_degree :: "'e digraph \<Rightarrow> string \<Rightarrow> nat" where
  "in_degree g n = length (filter (\<lambda>e. snd (fst e) = n) (edges g))"

definition degree :: "'e digraph \<Rightarrow> string \<Rightarrow> nat" where
  "degree g n = in_degree g n + out_degree g n"

text \<open>\<^verbatim>\<open>d.get(key, 0)\<close> on a dictionary of floats\<close>

definition get_or_0 :: "(string \<rightharpoonup> real) \<Rightarrow> string \<Rightarrow> real" where
  "get_or_0 d k = (case d k of None \<Rightarrow> 0 | Some x \<Rightarrow> x)"

text \<open>\<^verbatim>\<open>{n: 0 for n in graph.nodes()}\<close>\<close>

definition zero_for_nodes :: "'e digraph \<Rightarrow> (string \<rightharpoonup> real)" where
  "zero_for_nodes g = (\<lambda>n. if n \<in> set (node_ids g) then Some 0 else None)"

text \<open>\<^verbatim>\<open>xs[:n]\<close>: a negative \<open>n\<close> counts from the end.\<close>

definition py_take :: "int \<Rightarrow> 'a list \<Rightarrow> 'a list" where
  "py_take n xs = (if 0 \<le> n then take (nat n) xs else take (length xs - nat (- n)) xs)"

definition superspreader_of ::
  "int digraph \<Rightarrow> (string \<rightharpoonup> real) \<Rightarrow> (string \<rightharpoonup> real) \<Rightarrow> string \<Rightarrow> superspreader_info" where
  "superspreader_of graph pagerank betweenness node =
     (let attrs = node_attrs_of graph node;
          score = real (out_degree graph node) * 0.4
                + get_or_0 pagerank node * 100 * 0.4
                + get_or_0 betweenness node * 10 * 0.2
      in \<lparr>ss_id = node,
          ss_name = (case a_name attrs of None \<Rightarrow> node | Some v \<Rightarrow> v),
          ss_source_type = (case a_source_type attrs of None \<Rightarrow> ''unknown'' | Some v \<Rightarrow> v),
          ss_out_degree = out_degree graph node,
          ss_pagerank = get_or_0 pagerank node,
          ss_betweenness = get_or_0 betweenness node,
          ss_score = score,
          ss_is_doppelganger = (case a_is_doppelganger attrs of None \<Rightarrow> False | Some v \<Rightarrow> v)\<rparr>)"

text \<open>The two \<^verbatim>\<open>try\<close> blocks: the library's value, or 0 for every node when it raises.\<close>

definition try_pagerank :: "library \<Rightarrow> int digraph \<Rightarrow> (string \<rightharpoonup> real)" where
  "try_pagerank lib graph =
     (case nx_pagerank lib graph of Inr pr \<Rightarrow> pr | Inl e \<Rightarrow> zero_for_nodes graph)"

definition try_betweenness :: "library \<Rightarrow> int digraph \<Rightarrow> (string \<rightharpoonup> real)" where
  "try_betweenness lib graph =
     (case nx_betweenness_centrality lib graph of Inr bc \<Rightarrow> bc | Inl e \<Rightarrow> zero_for_nodes graph)"

text \<open>
  \<^verbatim>\<open>list.sort(key=..., reverse=True)\<close> is stable: records with equal scores keep
  their order, as \<open>sort_key\<close> on the negated score does.
\<close>

definition find_superspreaders ::
  "library \<Rightarrow> analyzer \<Rightarrow> int digraph option \<Rightarrow> int \<Rightarrow> superspreader_info list" where
  "find_superspreaders lib self graph_arg top_n =
     (let graph = (case graph_arg of None \<Rightarrow> source_graph self | Some g \<Rightarrow> g)
      in if number_of_nodes graph = 0 then []
         else
           (let pagerank = try_pagerank lib graph;
                betweenness = try_betweenness lib graph;
                superspreaders = map (superspreader_of graph pagerank betweenness) (node_ids graph)
            in py_take top_n (sort_key (\<lambda>x. - ss_score x) superspreaders)))"

subsection \<open>Coordinated behaviour\<close>

record coordinated_behavior_event =
  ev_timestamp :: datetime
  ev_content_count :: nat
  ev_unique_sources :: nat
  ev_window_seconds :: int
  ev_content_ids :: "string list"

definition total_seconds :: "int \<Rightarrow> real" where
  "total_seconds d = real_of_int d / 1000000"

text \<open>
  \<^verbatim>\<open>strftime("%Y-%m-%dT%H")\<close> names the calendar hour of a timestamp; the hour
  number since the epoch stands for that string.
\<close>

definition hour_key :: "datetime \<Rightarrow> int" where
  "hour_key t = t div 3600000000"

text \<open>
  The query of the detector: the contents with a publication time, ordered by
  it (ties in the order of the table).
\<close>

definition query_contents :: "store \<Rightarrow> content list" where
  "query_contents st =
     sort_key (\<lambda>c. the (c_published_at c)) (filter (\<lambda>c. c_published_at c \<noteq> None) (st_contents st))"

text \<open>The inner loop over \<^verbatim>\<open>contents[i:]\<close>, for the anchor time \<open>t0\<close>.\<close>

fun window_loop :: "int \<Rightarrow> datetime \<Rightarrow> content list \<Rightarrow> content list" where
  "window_loop w t0 [] = []"
| "window_loop w t0 (other # rest) =
     (case c_published_at other of
        None \<Rightarrow> window_loop w t0 rest
      | Some t \<Rightarrow>
          (if total_seconds (t - t0) \<le> real_of_int w then other # window_loop w t0 rest
           else if total_seconds (t - t0) > real_of_int w then []
           else window_loop w t0 rest))"

definition window_sources :: "content list \<Rightarrow> string set" where
  "window_sources window_contents =
     set (map (\<lambda>c. the (c_source_id c)) (filter (\<lambda>c. truthy_str (c_source_id c)) window_contents))"

text \<open>
  The check for coordination at one anchor: the event the anchor would emit,
  before the deduplication by hour.
\<close>

definition check_coordination :: "int \<Rightarrow> int \<Rightarrow> datetime \<Rightarrow> content list \<Rightarrow> coordinated_behavior_event option" where
  "check_coordination w min_actors t0 suffix =
     (let window_contents = window_loop w t0 suffix
      in if min_actors \<le> int (length window_contents) then
           (let sources = window_sources window_contents
            in if min_actors \<le> int (card sources) then
                 Some \<lparr>ev_timestamp = t0,
                       ev_content_count = length window_contents,
                       ev_unique_sources = card sources,
                       ev_window_seconds = w,
                       ev_content_ids = map c_id (take 10 window_contents)\<rparr>
               else None)
         else None)"

text \<open>The outer loop \<^verbatim>\<open>for i, content in enumerate(contents)\<close> with its set of seen hours.\<close>

fun sliding_window :: "int \<Rightarrow> int \<Rightarrow> content list \<Rightarrow> int set \<Rightarrow> coordinated_behavior_event list" where
  "sliding_window w min_actors [] seen_hours = []"
| "sliding_window w min_actors (content # rest) seen_hours =
     (case c_published_at content of
        None \<Rightarrow> sliding_window w min_actors rest seen_hours
      | Some t0 \<Rightarrow>
          (case check_coordination w min_actors t0 (content # rest) of
             None \<Rightarrow> sliding_window w min_actors rest seen_hours
           | Some ev \<Rightarrow>
               (if hour_key t0 \<notin> seen_hours
                then ev # sliding_window w min_actors rest (insert (hour_key t0) seen_hours)
                else sliding_window w min_actors rest seen_hours)))"

definition detect_coordinated_behavior_in :: "content list \<Rightarrow> int \<Rightarrow> int \<Rightarrow> coordinated_behavior_event list" where
  "detect_coordinated_behavior_in contents time_window_seconds min_actors =
     (if contents = [] then [] else sliding_window time_window_seconds min_actors contents {})"

definition detect_coordinated_behavior :: "store \<Rightarrow> int \<Rightarrow> int \<Rightarrow> coordinated_behavior_event list" where
  "detect_coordinated_behavior st time_window_seconds min_actors =
     detect_coordinated_behavior_in (query_contents st) time_window_seconds min_actors"

subsection \<open>Network statistics\<close>

record network_stats =
  ns_node_count :: nat
  ns_edge_count :: nat
  ns_density :: real
  ns_community_count :: int
  ns_avg_degree :: real
  ns_is_connected :: bool

definition get_network_stats :: "library \<Rightarrow> analyzer \<Rightarrow> network_stats" where
  "get_network_stats lib self =
     (let g = source_graph self;
          stats = \<lparr>ns_node_count = number_of_nodes g,
                   ns_edge_count = number_of_edges g,
                   ns_density = (if number_of_nodes g > 0 then nx_density g else 0),
                   ns_community_count = 0,
                   ns_avg_degree = 0,
                   ns_is_connected = False\<rparr>
      in if number_of_nodes g > 0 then
           (let degrees = map (\<lambda>n. (n, degree g n)) (node_ids g);
                stats1 = stats\<lparr>ns_avg_degree :=
                           real (sum_list (map snd degrees)) / real (length degrees)\<rparr>
            in case nx_is_connected lib (to_undirected g) of
                 Inr b \<Rightarrow> stats1\<lparr>ns_is_connected := b\<rparr>
               | Inl e \<Rightarrow> stats1)
         else stats)"

subsection \<open>Propagation patterns\<close>

record propagation_patterns =
  pp_total :: nat
  pp_by_type :: "(string \<times> int) list"
  pp_mutations :: int
  pp_avg_time_delta :: real
  pp_fast_propagation :: int
  pp_same_day :: int

text \<open>\<^verbatim>\<open>{"total": 0, "patterns": {}}\<close> when the window holds no link, the statistics otherwise.\<close>

datatype patterns_result = No_propagations | Patterns propagation_patterns

text \<open>The loop state: the statistics, \<^verbatim>\<open>total_delta\<close> and \<^verbatim>\<open>counted\<close>.\<close>

definition pattern_step ::
  "loaded_propagation \<Rightarrow> propagation_patterns \<times> int \<times> int \<Rightarrow> propagation_patterns \<times> int \<times> int" where
  "pattern_step loaded state =
     (let prop = lp_row loaded;
          patterns = fst state; total_delta = fst (snd state); counted = snd (snd state);
          p1 = patterns\<lparr>pp_by_type := increment (p_propagation_type prop) (pp_by_type patterns)\<rparr>;
          p2 = (if p_mutation_detected prop then p1\<lparr>pp_mutations := pp_mutations p1 + 1\<rparr> else p1)
      in if truthy_int (p_time_delta_seconds prop) then
           (let delta = the (p_time_delta_seconds prop);
                p3 = (if delta < 3600 then p2\<lparr>pp_fast_propagation := pp_fast_propagation p2 + 1\<rparr> else p2);
                p4 = (if delta < 86400 then p3\<lparr>pp_same_day := pp_same_day p3 + 1\<rparr> else p3)
            in (p4, total_delta + delta, counted + 1))
         else (p2, total_delta, counted))"

definition analyze_propagation_patterns :: "store \<Rightarrow> datetime \<Rightarrow> int \<Rightarrow> exn + patterns_result" where
  "analyze_propagation_patterns st now days_back =
     (case cutoff_date now days_back of
        Inl e \<Rightarrow> Inl e
      | Inr cutoff \<Rightarrow>
          (case query_propagations st cutoff of
             Inl e \<Rightarrow> Inl e
           | Inr propagations \<Rightarrow>
               (if propagations = [] then Inr No_propagations
                else
                  (let start = \<lparr>pp_total = length propagations, pp_by_type = [], pp_mutations = 0,
                                 pp_avg_time_delta = 0, pp_fast_propagation = 0, pp_same_day = 0\<rparr>;
                       state = fold pattern_step propagations (start, 0, 0);
                       patterns = fst state; total_delta = fst (snd state); counted = snd (snd state)
                   in Inr (Patterns
                        (if counted > 0
                         then patterns\<lparr>pp_avg_time_delta := real_of_int total_delta / real_of_int counted\<rparr>
                         else patterns))))))"

subsection \<open>Export\<close>

text \<open>
  The settings, the formatting of timestamps, the path operations and the two
  effects on the file system (creating a directory, writing the GEXF file) are
  parameters; the effects may raise.
\<close>

record environment =
  env_exports_dir :: string
  env_isoformat :: "datetime \<Rightarrow> string"
  env_strftime :: "datetime \<Rightarrow> string"
  env_path_join :: "string \<Rightarrow> string \<Rightarrow> string"
  env_path_parent :: "string \<Rightarrow> string"
  env_mkdir :: "string \<Rightarrow> exn + unit"
  env_write_gexf :: "int digraph \<Rightarrow> string \<Rightarrow> exn + unit"

definition export_to_gexf :: "environment \<Rightarrow> analyzer \<Rightarrow> string \<Rightarrow> int digraph option \<Rightarrow> exn + string" where
  "export_to_gexf env self filepath graph_arg =
     (let graph = (case graph_arg of None \<Rightarrow> source_graph self | Some g \<Rightarrow> g);
          output_path = filepath
      in case env_mkdir env (env_path_parent env output_path) of
           Inl e \<Rightarrow> Inl e
         | Inr u \<Rightarrow>
             (case env_write_gexf env graph output_path of
                Inl e \<Rightarrow> Inl e
              | Inr u' \<Rightarrow> Inr output_path))"

subsection \<open>The full analysis\<close>

text \<open>
  Every reading of the clock in one run is an input. The steps follow the
  source in order; an exception of a step ends the run with the analyzer as the
  steps before left it.
\<close>

record clock =
  now_content_graph :: datetime
  now_source_graph :: datetime
  now_results :: datetime
  now_patterns :: datetime
  now_export :: datetime

record results =
  r_timestamp :: string
  r_period_days :: int
  r_stats :: network_stats
  r_superspreaders :: "superspreader_info list"
  r_propagation_patterns :: patterns_result
  r_coordinated_behavior :: "coordinated_behavior_event list"
  r_communities :: "(nat \<times> (string \<times> int) list) option"
  r_exports :: "string option"

definition export_source_graph :: "environment \<Rightarrow> clock \<Rightarrow> analyzer \<Rightarrow> results \<Rightarrow> exn + results" where
  "export_source_graph env clk self res =
     (if number_of_nodes (source_graph self) > 0 then
        (let exports_dir = env_path_join env (env_exports_dir env) ''graphs''
         in case env_mkdir env exports_dir of
              Inl e \<Rightarrow> Inl e
            | Inr u \<Rightarrow>
                (let timestamp = env_strftime env (now_export clk)
                 in case export_to_gexf env self
                           (env_path_join env exports_dir (''source_network_'' @ timestamp @ ''.gexf''))
                           None of
                      Inl e \<Rightarrow> Inl e
                    | Inr gexf_path \<Rightarrow> Inr (res\<lparr>r_exports := Some gexf_path\<rparr>)))
      else Inr res)"

definition run_full_analysis ::
  "environment \<Rightarrow> library \<Rightarrow> store \<Rightarrow> clock \<Rightarrow> int \<Rightarrow> analyzer \<Rightarrow> analyzer \<times> (exn + results)" where
  "run_full_analysis env lib st clk days_back self =
     (case build_content_graph st (now_content_graph clk) days_back 0.5 self of
        (self1, built_content) \<Rightarrow>
          (case built_content of
             Inl e \<Rightarrow> (self1, Inl e)
           | Inr cg \<Rightarrow>
               (case build_source_graph st (now_source_graph clk) days_back self1 of
                  (self2, built_source) \<Rightarrow>
                    (case built_source of
                       Inl e \<Rightarrow> (self2, Inl e)
                     | Inr sg \<Rightarrow>
                         (let timestamp = env_isoformat env (now_results clk);
                              stats = get_network_stats lib self2;
                              superspreaders = find_superspreaders lib self2 None 20
                          in case analyze_propagation_patterns st (now_patterns clk) days_back of
                               Inl e \<Rightarrow> (self2, Inl e)
                             | Inr patterns \<Rightarrow>
                                 (let res = \<lparr>r_timestamp = timestamp,
                                             r_period_days = days_back,
                                             r_stats = stats,
                                             r_superspreaders = superspreaders,
                                             r_propagation_patterns = patterns,
                                             r_coordinated_behavior = detect_coordinated_behavior st 300 3,
                                             r_communities = None,
                                             r_exports = None\<rparr>;
                                      res1 = (if number_of_nodes (source_graph self2) > 2 then
                                                (let part = detect_communities lib self2 None
                                                 in res\<lparr>r_communities :=
                                                       Some (card (set (map snd part)), part)\<rparr>)
                                              else res)
                                  in (self2, export_source_graph env clk self2 res1)))))))"

section \<open>Reference definitions\<close>

text \<open>
  The definitions of this section are not translations of the source: they
  state, in the words of the specification, what the operations are compared
  with, or name an intermediate notion of a proof.
\<close>

subsection \<open>The window, the event and the hour bucket of the anchor at index \<open>i\<close>\<close>

definition spec_window :: "int \<Rightarrow> content list \<Rightarrow> nat \<Rightarrow> content list" where
  "spec_window w cs i =
     takeWhile (\<lambda>c. total_seconds (the (c_published_at c) - the (c_published_at (cs ! i))) \<le> real_of_int w)
       (drop i cs)"

definition spec_qualifies :: "int \<Rightarrow> int \<Rightarrow> content list \<Rightarrow> nat \<Rightarrow> bool" where
  "spec_qualifies w m cs i =
     (m \<le> int (length (spec_window w cs i)) \<and> m \<le> int (card (window_sources (spec_window w cs i))))"

definition spec_event :: "int \<Rightarrow> content list \<Rightarrow> nat \<Rightarrow> coordinated_behavior_event" where
  "spec_event w cs i =
     \<lparr>ev_timestamp = the (c_published_at (cs ! i)),
      ev_content_count = length (spec_window w cs i),
      ev_unique_sources = card (window_sources (spec_window w cs i)),
      ev_window_seconds = w,
      ev_content_ids = map c_id (take 10 (spec_window w cs i))\<rparr>"

definition anchor_hour :: "content list \<Rightarrow> nat \<Rightarrow> int" where
  "anchor_hour cs i = hour_key (the (c_published_at (cs ! i)))"

definition spec_first_in_hour :: "int \<Rightarrow> int \<Rightarrow> content list \<Rightarrow> nat \<Rightarrow> bool" where
  "spec_first_in_hour w m cs i =
     (\<forall>j < i. spec_qualifies w m cs j \<longrightarrow> anchor_hour cs j \<noteq> anchor_hour cs i)"

text \<open>
  The sweep with the skip-ahead the specification describes: after an event is
  emitted the following items of its window are passed over (\<open>skip\<close> counts
  them). The source has no such step.
\<close>

fun spec_skip_ahead :: "int \<Rightarrow> int \<Rightarrow> content list \<Rightarrow> int set \<Rightarrow> nat \<Rightarrow> coordinated_behavior_event list" where
  "spec_skip_ahead w min_actors [] seen_hours skip = []"
| "spec_skip_ahead w min_actors (content # rest) seen_hours skip =
     (if 0 < skip then spec_skip_ahead w min_actors rest seen_hours (skip - 1)
      else
        (case c_published_at content of
           None \<Rightarrow> spec_skip_ahead w min_actors rest seen_hours 0
         | Some t0 \<Rightarrow>
             (case check_coordination w min_actors t0 (content # rest) of
                None \<Rightarrow> spec_skip_ahead w min_actors rest seen_hours 0
              | Some ev \<Rightarrow>
                  (if hour_key t0 \<notin> seen_hours
                   then ev # spec_skip_ahead w min_actors rest (insert (hour_key t0) seen_hours)
                               (ev_content_count ev - 1)
                   else spec_skip_ahead w min_actors rest seen_hours 0))))"

subsection \<open>Auxiliary notions of the proofs\<close>

text \<open>
  The anchors from index \<open>k\<close> on that the sweep keeps when it starts with the
  hours \<open>seen\<close>; the records of all nodes, before sorting and cutting.
\<close>

definition kept :: "int \<Rightarrow> int \<Rightarrow> content list \<Rightarrow> int set \<Rightarrow> nat \<Rightarrow> nat \<Rightarrow> bool" where
  "kept w m cs seen k i =
     (spec_qualifies w m cs i \<and> anchor_hour cs i \<notin> seen \<and>
      (\<forall>j. k \<le> j \<and> j < i \<longrightarrow> spec_qualifies w m cs j \<longrightarrow> anchor_hour cs j \<noteq> anchor_hour cs i))"


definition all_superspreaders :: "library \<Rightarrow> int digraph \<Rightarrow> superspreader_info list" where
  "all_superspreaders lib g =
     map (superspreader_of g (try_pagerank lib g) (try_betweenness lib g)) (node_ids g)"

section \<open>Concrete inputs\<close>

text \<open>
  Small stores, graphs and library behaviours on which the statements below are
  evaluated. Times are given in seconds and stored in microseconds.
\<close>

definition item :: "string \<Rightarrow> string \<Rightarrow> int \<Rightarrow> content" where
  "item i s secs = \<lparr>c_id = i, c_source_id = Some s, c_published_at = Some (secs * 1000000)\<rparr>"

definition three_sources :: "content list" where
  "three_sources = [item ''1'' ''A'' 0, item ''2'' ''B'' 10, item ''3'' ''C'' 20]"

definition two_sources :: "content list" where
  "two_sources = [item ''1'' ''A'' 0, item ''2'' ''B'' 10, item ''3'' ''A'' 20]"

definition burst :: "content list" where
  "burst = [item ''1'' ''A'' 3590, item ''2'' ''B'' 3595, item ''3'' ''C'' 3600,
            item ''4'' ''D'' 3605, item ''5'' ''E'' 3610]"

definition failing_library :: library where
  "failing_library =
     \<lparr>nx_pagerank = (\<lambda>g. Inl (Exn ''PowerIterationFailedConvergence'')),
      nx_betweenness_centrality = (\<lambda>g. Inl (Exn ''error'')),
      best_partition = (\<lambda>g. Inl (Exn ''error'')),
      nx_is_connected = (\<lambda>g. Inl (Exn ''error''))\<rparr>"

definition demo_library :: library where
  "demo_library =
     \<lparr>nx_pagerank = (\<lambda>g. Inr [''A'' \<mapsto> 1/4, ''B'' \<mapsto> 3/4]),
      nx_betweenness_centrality = (\<lambda>g. Inr (\<lambda>n. Some 0)),
      best_partition = (\<lambda>g. Inr (map (\<lambda>n. (fst n, 0)) (un_nodes g))),
      nx_is_connected = networkx_is_connected\<rparr>"

definition two_node_graph :: "int digraph" where
  "two_node_graph = add_edge ''A'' ''B'' 5 empty_graph"

definition demo_content :: "string \<Rightarrow> string \<Rightarrow> content" where
  "demo_content i s = \<lparr>c_id = i, c_source_id = Some s, c_published_at = None\<rparr>"

definition demo_link :: "string \<Rightarrow> string \<Rightarrow> real option \<Rightarrow> propagation" where
  "demo_link x y score = \<lparr>p_source_content_id = x, p_target_content_id = y,
     p_propagation_type = ''forward'', p_similarity_score = score, p_mutation_detected = False,
     p_time_delta_seconds = None, p_created_at = 0\<rparr>"

definition demo_source :: "string \<Rightarrow> bool \<Rightarrow> source" where
  "demo_source i active = \<lparr>s_id = i, s_name = i, s_source_type = ''telegram'', s_language = None,
     s_is_doppelganger = False, s_is_amplifier = False, s_is_active = active\<rparr>"

text \<open>One link between a content of source A and a content of source B, both active.\<close>

definition linked_store :: store where
  "linked_store =
     \<lparr>st_sources = [demo_source ''A'' True, demo_source ''B'' True],
      st_propagations = [demo_link ''c1'' ''c2'' None],
      st_contents = [demo_content ''c1'' ''A'', demo_content ''c2'' ''B'']\<rparr>"

text \<open>The same link, with source B inactive.\<close>

definition inactive_store :: store where
  "inactive_store =
     \<lparr>st_sources = [demo_source ''A'' True, demo_source ''B'' False],
      st_propagations = [demo_link ''c1'' ''c2'' None],
      st_contents = [demo_content ''c1'' ''A'', demo_content ''c2'' ''B'']\<rparr>"

text \<open>A link with the similarity 0.9 and a link without similarity.\<close>

definition similarity_store :: store where
  "similarity_store =
     \<lparr>st_sources = [demo_source ''A'' True, demo_source ''B'' True],
      st_propagations = [demo_link ''c1'' ''c2'' (Some 0.9), demo_link ''c3'' ''c4'' None],
      st_contents = [demo_content ''c1'' ''A'', demo_content ''c2'' ''B'',
                     demo_content ''c3'' ''A'', demo_content ''c4'' ''B'']\<rparr>"

definition two_node_analyzer :: analyzer where
  "two_node_analyzer = init_analyzer\<lparr>source_graph := two_node_graph\<rparr>"

text \<open>
  An instance whose source graph holds three nodes, and a library whose
  partition has 2 communities.
\<close>

definition three_node_analyzer :: analyzer where
  "three_node_analyzer =
     init_analyzer\<lparr>source_graph :=
       add_node ''C'' no_attrs (add_node ''B'' no_attrs (add_node ''A'' no_attrs empty_graph))\<rparr>"

definition partition_library :: library where
  "partition_library = failing_library\<lparr>best_partition := (\<lambda>g. Inr [(''A'', 0), (''B'', 0), (''C'', 1)])\<rparr>"

definition demo_clock :: clock where
  "demo_clock = \<lparr>now_content_graph = 0, now_source_graph = 0, now_results = 0, now_patterns = 0,
     now_export = 0\<rparr>"

definition demo_environment :: environment where
  "demo_environment =
     \<lparr>env_exports_dir = ''exports'',
      env_isoformat = (\<lambda>t. ''1970-01-01T00:00:00''),
      env_strftime = (\<lambda>t. ''19700101_000000''),
      env_path_join = (\<lambda>a b. a @ ''/'' @ b),
      env_path_parent = (\<lambda>p. p),
      env_mkdir = (\<lambda>p. Inr ()),
      env_write_gexf = (\<lambda>g p. Inr ())\<rparr>"

section \<open>Coordination detector\<close>

lemma window_loop_takeWhile:
  "\<forall>c \<in> set cs. c_published_at c \<noteq> None \<Longrightarrow>
   window_loop w t0 cs =
     takeWhile (\<lambda>c. total_seconds (the (c_published_at c) - t0) \<le> real_of_int w) cs"
  by (induction cs) auto

lemma check_coordination_spec:
  assumes "i < length cs" and "\<forall>c \<in> set cs. c_published_at c \<noteq> None"
  shows "check_coordination w m (the (c_published_at (cs ! i))) (drop i cs) =
           (if spec_qualifies w m cs i then Some (spec_event w cs i) else None)"
proof -
  have "\<forall>c \<in> set (drop i cs). c_published_at c \<noteq> None"
    using assms(2) by (meson in_set_dropD)
  then have "window_loop w (the (c_published_at (cs ! i))) (drop i cs) = spec_window w cs i"
    by (simp add: window_loop_takeWhile spec_window_def)
  then show ?thesis
    by (simp add: check_coordination_def spec_qualifies_def spec_event_def Let_def)
qed

lemma split_first:
  "k < i \<Longrightarrow> (\<forall>j. k \<le> j \<and> j < i \<longrightarrow> R j) = (R k \<and> (\<forall>j. Suc k \<le> j \<and> j < i \<longrightarrow> R j))"
proof
  assume a: "\<forall>j. k \<le> j \<and> j < i \<longrightarrow> R j"
  assume "k < i"
  then show "R k \<and> (\<forall>j. Suc k \<le> j \<and> j < i \<longrightarrow> R j)"
    using a by auto
next
  assume b: "R k \<and> (\<forall>j. Suc k \<le> j \<and> j < i \<longrightarrow> R j)"
  show "\<forall>j. k \<le> j \<and> j < i \<longrightarrow> R j"
  proof (intro allI impI)
    fix j assume "k \<le> j \<and> j < i"
    then have "j = k \<or> Suc k \<le> j" by auto
    then show "R j" using b \<open>k \<le> j \<and> j < i\<close> by auto
  qed
qed

lemma kept_skip:
  assumes "k < i" and "\<not> spec_qualifies w m cs k"
  shows "kept w m cs seen k i = kept w m cs seen (Suc k) i"
  unfolding kept_def
  using assms split_first[OF assms(1), of "\<lambda>j. spec_qualifies w m cs j \<longrightarrow> anchor_hour cs j \<noteq> anchor_hour cs i"]
  by simp

lemma kept_seen:
  assumes "k < i" and "anchor_hour cs k \<in> seen"
  shows "kept w m cs seen k i = kept w m cs seen (Suc k) i"
  unfolding kept_def
  using assms split_first[OF assms(1), of "\<lambda>j. spec_qualifies w m cs j \<longrightarrow> anchor_hour cs j \<noteq> anchor_hour cs i"]
  by auto

lemma kept_emit:
  assumes "k < i" and "spec_qualifies w m cs k"
  shows "kept w m cs seen k i = kept w m cs (insert (anchor_hour cs k) seen) (Suc k) i"
  unfolding kept_def
  using assms split_first[OF assms(1), of "\<lambda>j. spec_qualifies w m cs j \<longrightarrow> anchor_hour cs j \<noteq> anchor_hour cs i"]
  by auto

lemma kept_self:
  "kept w m cs seen k k = (spec_qualifies w m cs k \<and> anchor_hour cs k \<notin> seen)"
  by (auto simp: kept_def)

lemma sliding_window_from:
  assumes "\<forall>c \<in> set (pre @ suf). c_published_at c \<noteq> None"
  shows "sliding_window w m suf seen =
           map (spec_event w (pre @ suf))
             (filter (kept w m (pre @ suf) seen (length pre)) [length pre..<length (pre @ suf)])"
  using assms
proof (induction suf arbitrary: pre seen)
  case Nil
  then show ?case by simp
next
  case (Cons c rest)
  let ?cs = "pre @ c # rest"
  let ?k = "length pre"
  let ?n = "length ?cs"
  have pres: "\<forall>c \<in> set ?cs. c_published_at c \<noteq> None" using Cons.prems by simp
  have IH: "sliding_window w m rest s =
      map (spec_event w ?cs) (filter (kept w m ?cs s (Suc ?k)) [Suc ?k..<?n])" for s
    using Cons.IH[of "pre @ [c]" s] pres by simp
  have at: "?cs ! ?k = c" by simp
  have dr: "drop ?k ?cs = c # rest" by simp
  obtain t0 where t0: "c_published_at c = Some t0" using pres by auto
  have chk: "check_coordination w m t0 (c # rest) =
      (if spec_qualifies w m ?cs ?k then Some (spec_event w ?cs ?k) else None)"
  proof -
    have lt: "?k < length ?cs" by simp
    show ?thesis
      using check_coordination_spec[OF lt pres, of w m] unfolding at dr t0 by simp
  qed
  have upt: "[?k..<?n] = ?k # [Suc ?k..<?n]" by (rule upt_conv_Cons) simp
  have hk: "anchor_hour ?cs ?k = hour_key t0" unfolding anchor_hour_def at t0 by simp
  have lhs: "sliding_window w m (c # rest) seen =
      (if spec_qualifies w m ?cs ?k then
         (if hour_key t0 \<notin> seen
          then spec_event w ?cs ?k # sliding_window w m rest (insert (hour_key t0) seen)
          else sliding_window w m rest seen)
       else sliding_window w m rest seen)"
    by (simp add: t0 chk)
  have rhs: "filter (kept w m ?cs seen ?k) [?k..<?n] =
      (if spec_qualifies w m ?cs ?k \<and> hour_key t0 \<notin> seen
       then ?k # filter (kept w m ?cs seen ?k) [Suc ?k..<?n]
       else filter (kept w m ?cs seen ?k) [Suc ?k..<?n])"
    unfolding upt by (simp add: kept_self hk)
  show ?case
  proof (cases "spec_qualifies w m ?cs ?k")
    case False
    have "filter (kept w m ?cs seen ?k) [Suc ?k..<?n] = filter (kept w m ?cs seen (Suc ?k)) [Suc ?k..<?n]"
proof (rule filter_cong[OF refl])
        fix i assume "i \<in> set [Suc ?k..<?n]"
        then have "Suc ?k \<le> i" unfolding set_upt atLeastLessThan_iff by (rule conjunct1)
        then have "?k < i" by (rule Suc_le_lessD)
        then show "kept w m ?cs seen ?k i = kept w m ?cs seen (Suc ?k) i"
          by (rule kept_skip[OF _ False])
      qed
    then show ?thesis
      unfolding lhs rhs IH using False by simp
  next
    case True
    show ?thesis
    proof (cases "hour_key t0 \<in> seen")
      case in_seen: True
      then have "anchor_hour ?cs ?k \<in> seen" using hk by simp
      have "filter (kept w m ?cs seen ?k) [Suc ?k..<?n] = filter (kept w m ?cs seen (Suc ?k)) [Suc ?k..<?n]"
proof (rule filter_cong[OF refl])
        fix i assume "i \<in> set [Suc ?k..<?n]"
        then have "Suc ?k \<le> i" unfolding set_upt atLeastLessThan_iff by (rule conjunct1)
        then have "?k < i" by (rule Suc_le_lessD)
        then show "kept w m ?cs seen ?k i = kept w m ?cs seen (Suc ?k) i"
          by (rule kept_seen[OF _ \<open>anchor_hour ?cs ?k \<in> seen\<close>])
      qed
      then show ?thesis
        unfolding lhs rhs IH using True in_seen by simp
    next
      case fresh: False
      have "filter (kept w m ?cs seen ?k) [Suc ?k..<?n] =
            filter (kept w m ?cs (insert (anchor_hour ?cs ?k) seen) (Suc ?k)) [Suc ?k..<?n]"
proof (rule filter_cong[OF refl])
        fix i assume "i \<in> set [Suc ?k..<?n]"
        then have "Suc ?k \<le> i" unfolding set_upt atLeastLessThan_iff by (rule conjunct1)
        then have "?k < i" by (rule Suc_le_lessD)
        then show "kept w m ?cs seen ?k i = kept w m ?cs (insert (anchor_hour ?cs ?k) seen) (Suc ?k) i"
          by (rule kept_emit[OF _ True])
      qed
      then show ?thesis
        unfolding lhs rhs IH hk using True fresh by simp
    qed
  qed
qed

lemma sliding_window_spec:
  assumes "\<forall>c \<in> set cs. c_published_at c \<noteq> None"
  shows "detect_coordinated_behavior_in cs w m =
           map (spec_event w cs)
             (filter (\<lambda>i. spec_qualifies w m cs i \<and> spec_first_in_hour w m cs i) [0..<length cs])"
proof -
  have "kept w m cs {} 0 = (\<lambda>i. spec_qualifies w m cs i \<and> spec_first_in_hour w m cs i)"
    by (auto simp: kept_def spec_first_in_hour_def fun_eq_iff)
  then show ?thesis
    using sliding_window_from[of "[]" cs w m "{}"] assms
    by (simp add: detect_coordinated_behavior_in_def)
qed

lemma check_coordination_timestamp:
  "check_coordination w m t0 suffix = Some ev \<Longrightarrow> ev_timestamp ev = t0"
  by (auto simp: check_coordination_def Let_def split: if_splits)

lemma check_coordination_ids:
  "check_coordination w m t0 suffix = Some ev \<Longrightarrow> length (ev_content_ids ev) \<le> 10"
  by (auto simp: check_coordination_def Let_def split: if_splits)

lemma sliding_window_hours:
  "distinct (map (\<lambda>ev. hour_key (ev_timestamp ev)) (sliding_window w m cs seen)) \<and>
   (\<forall>ev \<in> set (sliding_window w m cs seen). hour_key (ev_timestamp ev) \<notin> seen)"
proof (induction cs arbitrary: seen)
  case Nil
  then show ?case by simp
next
  case (Cons c rest)
  show ?case
  proof (cases "c_published_at c")
    case None
    then show ?thesis using Cons.IH[of seen] by simp
  next
    case (Some t0)
    show ?thesis
    proof (cases "check_coordination w m t0 (c # rest)")
      case None
      then show ?thesis using Some Cons.IH[of seen] by simp
    next
      case (Some ev)
      note chk = this
      have ts: "ev_timestamp ev = t0" using chk by (rule check_coordination_timestamp)
      show ?thesis
      proof (cases "hour_key t0 \<in> seen")
        case True
        then show ?thesis using \<open>c_published_at c = Some t0\<close> chk Cons.IH[of seen] by simp
      next
        case False
        then show ?thesis
          using \<open>c_published_at c = Some t0\<close> chk Cons.IH[of "insert (hour_key t0) seen"] ts
          by auto
      qed
    qed
  qed
qed

lemma sliding_window_ids:
  "\<forall>ev \<in> set (sliding_window w m cs seen). length (ev_content_ids ev) \<le> 10"
proof (induction cs arbitrary: seen)
  case Nil
  then show ?case by simp
next
  case (Cons c rest)
  then show ?case
    by (auto split: option.splits if_splits dest: check_coordination_ids)
qed

lemma three_sources_value:
  "detect_coordinated_behavior_in three_sources 30 3 =
     [\<lparr>ev_timestamp = 0, ev_content_count = 3, ev_unique_sources = 3, ev_window_seconds = 30,
       ev_content_ids = [''1'', ''2'', ''3'']\<rparr>]"
  by (simp add: three_sources_def item_def detect_coordinated_behavior_in_def check_coordination_def
      window_sources_def truthy_str_def total_seconds_def hour_key_def)

lemma two_sources_value:
  "detect_coordinated_behavior_in two_sources 30 3 = []"
  by (simp add: two_sources_def item_def detect_coordinated_behavior_in_def check_coordination_def
      window_sources_def truthy_str_def total_seconds_def hour_key_def Let_def card_insert_if)

lemma burst_value:
  "detect_coordinated_behavior_in burst 300 3 =
     [\<lparr>ev_timestamp = 3590000000, ev_content_count = 5, ev_unique_sources = 5,
       ev_window_seconds = 300, ev_content_ids = [''1'', ''2'', ''3'', ''4'', ''5'']\<rparr>,
      \<lparr>ev_timestamp = 3600000000, ev_content_count = 3, ev_unique_sources = 3,
       ev_window_seconds = 300, ev_content_ids = [''3'', ''4'', ''5'']\<rparr>]"
  by (simp add: burst_def item_def detect_coordinated_behavior_in_def check_coordination_def
      window_sources_def truthy_str_def total_seconds_def hour_key_def)

lemma burst_skip_value:
  "spec_skip_ahead 300 3 burst {} 0 =
     [\<lparr>ev_timestamp = 3590000000, ev_content_count = 5, ev_unique_sources = 5,
       ev_window_seconds = 300, ev_content_ids = [''1'', ''2'', ''3'', ''4'', ''5'']\<rparr>]"
  by (simp add: burst_def item_def check_coordination_def
      window_sources_def truthy_str_def total_seconds_def hour_key_def)


lemma query_contents_timestamps: "\<forall>c \<in> set (query_contents st). c_published_at c \<noteq> None"
  by (simp add: query_contents_def)

lemma detect_set:
  assumes "\<forall>c \<in> set cs. c_published_at c \<noteq> None"
  shows "set (detect_coordinated_behavior_in cs w m) =
           spec_event w cs ` {i. i < length cs \<and> spec_qualifies w m cs i \<and> spec_first_in_hour w m cs i}"
  unfolding sliding_window_spec[OF assms] by auto

lemma spec_event_timestamp: "hour_key (ev_timestamp (spec_event w cs i)) = anchor_hour cs i"
  by (simp add: spec_event_def anchor_hour_def)

lemma first_qualifying:
  assumes "spec_qualifies w m cs i"
  shows "\<exists>j \<le> i. spec_qualifies w m cs j \<and> spec_first_in_hour w m cs j \<and> anchor_hour cs j = anchor_hour cs i"
proof -
  define P where "P j \<longleftrightarrow> spec_qualifies w m cs j \<and> anchor_hour cs j = anchor_hour cs i" for j
  have "P i" using assms by (simp add: P_def)
  define j where "j = (LEAST j. P j)"
  have Pj: "P j" unfolding j_def using \<open>P i\<close> by (rule LeastI)
  have le: "j \<le> i" unfolding j_def using \<open>P i\<close> by (rule Least_le)
  have "\<not> P l" if "l < j" for l using that not_less_Least unfolding j_def by blast
  then have "spec_first_in_hour w m cs j"
    using Pj by (auto simp: spec_first_in_hour_def P_def)
  then show ?thesis using Pj le by (auto simp: P_def)
qed

text \<open>
  C2 (as amended): the emitted events are bucketed by the truncated hour of the
  anchor timestamp and only the first event of each bucket is kept; the sweep
  advances one item at a time, so every anchor whose window qualifies is
  examined and its hour bucket is reported, also when the anchor lies inside a
  window already reported. The hours of the events the method returns for a
  store are pairwise different as well.
\<close>

theorem hour_bucket_first_event_kept:
  assumes "\<forall>c \<in> set cs. c_published_at c \<noteq> None"
  shows "distinct (map (\<lambda>ev. hour_key (ev_timestamp ev)) (detect_coordinated_behavior_in cs w m)) \<and>
         (\<forall>ev \<in> set (detect_coordinated_behavior_in cs w m).
            \<exists>i < length cs. ev = spec_event w cs i \<and> spec_qualifies w m cs i \<and>
              spec_first_in_hour w m cs i) \<and>
         (\<forall>i < length cs. spec_qualifies w m cs i \<longrightarrow>
            (\<exists>j \<le> i. spec_event w cs j \<in> set (detect_coordinated_behavior_in cs w m) \<and>
               anchor_hour cs j = anchor_hour cs i)) \<and>
         distinct (map (\<lambda>ev. hour_key (ev_timestamp ev)) (detect_coordinated_behavior st w m))"
proof (intro conjI)
  show "distinct (map (\<lambda>ev. hour_key (ev_timestamp ev)) (detect_coordinated_behavior_in cs w m))"
    using sliding_window_hours[of w m cs "{}"] by (simp add: detect_coordinated_behavior_in_def)
  show "distinct (map (\<lambda>ev. hour_key (ev_timestamp ev)) (detect_coordinated_behavior st w m))"
    using sliding_window_hours[of w m "query_contents st" "{}"]
    by (simp add: detect_coordinated_behavior_def detect_coordinated_behavior_in_def)
  show "\<forall>ev \<in> set (detect_coordinated_behavior_in cs w m).
          \<exists>i < length cs. ev = spec_event w cs i \<and> spec_qualifies w m cs i \<and> spec_first_in_hour w m cs i"
    unfolding detect_set[OF assms] by auto
  show "\<forall>i < length cs. spec_qualifies w m cs i \<longrightarrow>
          (\<exists>j \<le> i. spec_event w cs j \<in> set (detect_coordinated_behavior_in cs w m) \<and>
             anchor_hour cs j = anchor_hour cs i)"
  proof (intro allI impI)
    fix i assume i: "i < length cs" and q: "spec_qualifies w m cs i"
    from first_qualifying[OF q] obtain j where j: "j \<le> i" "spec_qualifies w m cs j"
      "spec_first_in_hour w m cs j" "anchor_hour cs j = anchor_hour cs i" by blast
    then have "spec_event w cs j \<in> set (detect_coordinated_behavior_in cs w m)"
      unfolding detect_set[OF assms] using i by auto
    then show "\<exists>j \<le> i. spec_event w cs j \<in> set (detect_coordinated_behavior_in cs w m) \<and>
        anchor_hour cs j = anchor_hour cs i" using j by blast
  qed
qed

theorem hour_bucket_first_event_kept_witness:
  "None \<notin> set (map c_published_at burst) \<and>
   distinct (map (\<lambda>ev. hour_key (ev_timestamp ev)) (detect_coordinated_behavior_in burst 300 3)) \<and>
   length (detect_coordinated_behavior_in burst 300 3) = 2"
proof -
  have h: "\<forall>c \<in> set burst. c_published_at c \<noteq> None"
    by (simp add: burst_def item_def)
  have h': "None \<notin> set (map c_published_at burst)"
    by (simp add: burst_def item_def)
  from hour_bucket_first_event_kept[OF h, of 300 3] show ?thesis
    using h' by (simp add: burst_value)
qed

text \<open>
  C2 as stated fails: in a burst of five items around an hour boundary the
  detector reports the sub-window of the third item as a second event, where a
  sweep that jumps past the matched window reports one.
\<close>

theorem skip_ahead_counterexample:
  "detect_coordinated_behavior_in burst 300 3 =
     [\<lparr>ev_timestamp = 3590000000, ev_content_count = 5, ev_unique_sources = 5,
       ev_window_seconds = 300, ev_content_ids = [''1'', ''2'', ''3'', ''4'', ''5'']\<rparr>,
      \<lparr>ev_timestamp = 3600000000, ev_content_count = 3, ev_unique_sources = 3,
       ev_window_seconds = 300, ev_content_ids = [''3'', ''4'', ''5'']\<rparr>] \<and>
   detect_coordinated_behavior_in burst 300 3 \<noteq> spec_skip_ahead 300 3 burst {} 0"
  by (simp add: burst_value burst_skip_value)

text \<open>
  C4: on a sequence of contents that all carry a timestamp (as the time-sorted
  query result does), the window of the anchor at index \<open>i\<close> is the longest run
  of items from \<open>i\<close> on whose distance to the anchor is at most the window
  length; the anchor emits its event (its own timestamp, the item count, the
  count of distinct sources, at most 10 content ids) exactly when the window
  holds at least \<open>min_actors\<close> items from at least \<open>min_actors\<close> sources and no
  earlier such anchor lies in the same hour. Three items at 0s, 10s and 20s
  from three sources give one event with counts 3 and 3 for a window of 30s and
  3 actors; from two sources they give none. The method on a store is the same
  sweep over the result of its query.
\<close>

theorem coordination_window_and_event:
  assumes "\<forall>c \<in> set cs. c_published_at c \<noteq> None"
  shows "detect_coordinated_behavior_in cs w m =
           map (spec_event w cs)
             (filter (\<lambda>i. spec_qualifies w m cs i \<and> spec_first_in_hour w m cs i) [0..<length cs]) \<and>
         (\<forall>ev \<in> set (detect_coordinated_behavior_in cs w m). length (ev_content_ids ev) \<le> 10) \<and>
         detect_coordinated_behavior_in three_sources 30 3 =
           [\<lparr>ev_timestamp = 0, ev_content_count = 3, ev_unique_sources = 3, ev_window_seconds = 30,
             ev_content_ids = [''1'', ''2'', ''3'']\<rparr>] \<and>
         detect_coordinated_behavior_in two_sources 30 3 = [] \<and>
         detect_coordinated_behavior st w m =
           map (spec_event w (query_contents st))
             (filter (\<lambda>i. spec_qualifies w m (query_contents st) i \<and>
                         spec_first_in_hour w m (query_contents st) i)
                [0..<length (query_contents st)])"
proof -
  have "\<forall>ev \<in> set (detect_coordinated_behavior_in cs w m). length (ev_content_ids ev) \<le> 10"
    using sliding_window_ids[of w m cs "{}"] by (simp add: detect_coordinated_behavior_in_def)
  moreover have "detect_coordinated_behavior st w m =
      map (spec_event w (query_contents st))
        (filter (\<lambda>i. spec_qualifies w m (query_contents st) i \<and>
                    spec_first_in_hour w m (query_contents st) i)
           [0..<length (query_contents st)])"
    unfolding detect_coordinated_behavior_def
    by (rule sliding_window_spec[OF query_contents_timestamps])
  ultimately show ?thesis
    using sliding_window_spec[OF assms, of w m] three_sources_value two_sources_value by simp
qed

theorem coordination_window_and_event_witness:
  "None \<notin> set (map c_published_at three_sources) \<and>
   map (spec_event 30 three_sources)
     (filter (\<lambda>i. spec_qualifies 30 3 three_sources i \<and> spec_first_in_hour 30 3 three_sources i)
        [0..<length three_sources]) =
     [\<lparr>ev_timestamp = 0, ev_content_count = 3, ev_unique_sources = 3, ev_window_seconds = 30,
       ev_content_ids = [''1'', ''2'', ''3'']\<rparr>]"
proof -
  have h: "\<forall>c \<in> set three_sources. c_published_at c \<noteq> None"
    by (simp add: three_sources_def item_def)
  note t = coordination_window_and_event[OF h, of 30 3]
  have a: "detect_coordinated_behavior_in three_sources 30 3 =
      map (spec_event 30 three_sources)
        (filter (\<lambda>i. spec_qualifies 30 3 three_sources i \<and> spec_first_in_hour 30 3 three_sources i)
           [0..<length three_sources])"
    using t by (rule conjunct1)
  have b: "detect_coordinated_behavior_in three_sources 30 3 =
      [\<lparr>ev_timestamp = 0, ev_content_count = 3, ev_unique_sources = 3, ev_window_seconds = 30,
        ev_content_ids = [''1'', ''2'', ''3'']\<rparr>]"
    by (rule t[THEN conjunct2, THEN conjunct2, THEN conjunct1])
  have "map (spec_event 30 three_sources)
        (filter (\<lambda>i. spec_qualifies 30 3 three_sources i \<and> spec_first_in_hour 30 3 three_sources i)
           [0..<length three_sources]) =
      [\<lparr>ev_timestamp = 0, ev_content_count = 3, ev_unique_sources = 3, ev_window_seconds = 30,
        ev_content_ids = [''1'', ''2'', ''3'']\<rparr>]"
    using b unfolding a .
  moreover have "None \<notin> set (map c_published_at three_sources)"
    by (simp add: three_sources_def item_def)
  ultimately show ?thesis by simp
qed

section \<open>Superspreaders\<close>

lemma set_py_take: "set (py_take n xs) \<subseteq> set xs"
  by (auto simp: py_take_def dest: in_set_takeD)




lemma find_superspreaders_Some:
  "find_superspreaders lib self (Some g) top_n =
     py_take top_n (sort_key (\<lambda>x. - ss_score x) (all_superspreaders lib g))"
proof (cases "nodes g = []")
  case True
  then show ?thesis
    by (simp add: find_superspreaders_def all_superspreaders_def number_of_nodes_def
        node_ids_def py_take_def)
next
  case False
  then show ?thesis
    by (simp add: find_superspreaders_def all_superspreaders_def number_of_nodes_def Let_def)
qed


lemma in_find_superspreaders:
  assumes "r \<in> set (find_superspreaders lib self (Some g) top_n)"
  shows "\<exists>v \<in> set (node_ids g). r = superspreader_of g (try_pagerank lib g) (try_betweenness lib g) v"
proof -
  have "r \<in> set (sort_key (\<lambda>x. - ss_score x) (all_superspreaders lib g))"
    using assms set_py_take[of top_n "sort_key (\<lambda>x. - ss_score x) (all_superspreaders lib g)"]
    unfolding find_superspreaders_Some by (rule subsetD[rotated])
  then show ?thesis by (auto simp: all_superspreaders_def)
qed


lemma superspreader_of_fields:
  "ss_id (superspreader_of g pr bc v) = v"
  "ss_out_degree (superspreader_of g pr bc v) = out_degree g v"
  "ss_pagerank (superspreader_of g pr bc v) = get_or_0 pr v"
  "ss_betweenness (superspreader_of g pr bc v) = get_or_0 bc v"
  by (simp_all add: superspreader_of_def Let_def)



lemma length_py_take_cong: "length xs = length ys \<Longrightarrow> length (py_take n xs) = length (py_take n ys)"
  by (simp add: py_take_def)

lemma zero_for_nodes_get: "get_or_0 (zero_for_nodes g) v = 0"
  by (simp add: get_or_0_def zero_for_nodes_def)





text \<open>
  C6: when the PageRank call raises, every record carries PageRank 0 and the
  betweenness the library computed; likewise with the two exchanged; the number
  of records does not depend on either failure; \<open>detect_communities\<close> returns the
  empty mapping on a graph with fewer than 2 nodes and when the partition call
  raises, and the partition otherwise. Every library failure is a caught
  branch, so none of the operations has a raising outcome.
\<close>

theorem library_failures_fall_back:
  "(nx_pagerank lib g = Inl e \<longrightarrow>
      (\<forall>r \<in> set (find_superspreaders lib self (Some g) top_n). ss_pagerank r = 0 \<and>
         (\<forall>bc. nx_betweenness_centrality lib g = Inr bc \<longrightarrow> ss_betweenness r = get_or_0 bc (ss_id r)))) \<and>
   (nx_betweenness_centrality lib g = Inl e' \<longrightarrow>
      (\<forall>r \<in> set (find_superspreaders lib self (Some g) top_n). ss_betweenness r = 0 \<and>
         (\<forall>pr. nx_pagerank lib g = Inr pr \<longrightarrow> ss_pagerank r = get_or_0 pr (ss_id r)))) \<and>
   length (find_superspreaders lib self (Some g) top_n) = length (py_take top_n (node_ids g)) \<and>
   (length (un_nodes ug) < 2 \<longrightarrow> detect_communities lib self (Some ug) = []) \<and>
   (best_partition lib ug = Inl e'' \<longrightarrow> detect_communities lib self (Some ug) = []) \<and>
   (2 \<le> length (un_nodes ug) \<and> best_partition lib ug = Inr p \<longrightarrow>
      detect_communities lib self (Some ug) = p) \<and>
   detect_communities lib self None =
     detect_communities lib self (Some (to_undirected (source_graph self)))"
proof (intro conjI impI ballI allI)
  fix r assume f: "nx_pagerank lib g = Inl e"
    and r: "r \<in> set (find_superspreaders lib self (Some g) top_n)"
  from in_find_superspreaders[OF r] obtain v where
    v: "r = superspreader_of g (try_pagerank lib g) (try_betweenness lib g) v" by blast
  show "ss_pagerank r = 0"
    using f by (simp add: v superspreader_of_fields try_pagerank_def zero_for_nodes_get)
  fix bc assume "nx_betweenness_centrality lib g = Inr bc"
  then show "ss_betweenness r = get_or_0 bc (ss_id r)"
    by (simp add: v superspreader_of_fields try_betweenness_def)
next
  fix r assume f: "nx_betweenness_centrality lib g = Inl e'"
    and r: "r \<in> set (find_superspreaders lib self (Some g) top_n)"
  from in_find_superspreaders[OF r] obtain v where
    v: "r = superspreader_of g (try_pagerank lib g) (try_betweenness lib g) v" by blast
  show "ss_betweenness r = 0"
    using f by (simp add: v superspreader_of_fields try_betweenness_def zero_for_nodes_get)
  fix pr assume "nx_pagerank lib g = Inr pr"
  then show "ss_pagerank r = get_or_0 pr (ss_id r)"
    by (simp add: v superspreader_of_fields try_pagerank_def)
next
  show "length (find_superspreaders lib self (Some g) top_n) = length (py_take top_n (node_ids g))"
    unfolding find_superspreaders_Some
    by (rule length_py_take_cong) (simp add: all_superspreaders_def)
next
  assume "length (un_nodes ug) < 2"
  then show "detect_communities lib self (Some ug) = []"
    by (simp add: detect_communities_def)
next
  assume "best_partition lib ug = Inl e''"
  then show "detect_communities lib self (Some ug) = []"
    by (simp add: detect_communities_def)
next
  assume "2 \<le> length (un_nodes ug) \<and> best_partition lib ug = Inr p"
  then show "detect_communities lib self (Some ug) = p"
    by (simp add: detect_communities_def)
next
  show "detect_communities lib self None =
      detect_communities lib self (Some (to_undirected (source_graph self)))"
    by (simp add: detect_communities_def)
qed


theorem library_failures_fall_back_witness:
  "list_all (\<lambda>r. ss_pagerank r = 0 \<and> ss_betweenness r = 0)
     (find_superspreaders failing_library init_analyzer (Some two_node_graph) 5) \<and>
   length (find_superspreaders failing_library init_analyzer (Some two_node_graph) 5) = 2 \<and>
   detect_communities failing_library init_analyzer (Some (to_undirected two_node_graph)) = []"
proof -
  note t = library_failures_fall_back[of failing_library two_node_graph
      "Exn ''PowerIterationFailedConvergence''" init_analyzer 5 "Exn ''error''"
      "to_undirected two_node_graph" "Exn ''error''" "[]"]
  have p: "nx_pagerank failing_library two_node_graph = Inl (Exn ''PowerIterationFailedConvergence'')"
    by (simp add: failing_library_def)
  have b: "nx_betweenness_centrality failing_library two_node_graph = Inl (Exn ''error'')"
    by (simp add: failing_library_def)
  have c: "best_partition failing_library (to_undirected two_node_graph) = Inl (Exn ''error'')"
    by (simp add: failing_library_def)
  have ids: "node_ids two_node_graph = [''A'', ''B'']"
    by (simp add: two_node_graph_def add_edge_def add_node_def empty_graph_def node_ids_def Let_def)
  have "\<forall>r \<in> set (find_superspreaders failing_library init_analyzer (Some two_node_graph) 5).
      ss_pagerank r = 0"
    using t p by blast
  moreover have "\<forall>r \<in> set (find_superspreaders failing_library init_analyzer (Some two_node_graph) 5).
      ss_betweenness r = 0"
    using t b by blast
  moreover have "length (find_superspreaders failing_library init_analyzer (Some two_node_graph) 5) =
      length (py_take 5 (node_ids two_node_graph))"
    using t by blast
  moreover have "detect_communities failing_library init_analyzer (Some (to_undirected two_node_graph)) = []"
    using t c by blast
  ultimately show ?thesis
    by (simp add: list_all_iff ids py_take_def)
qed

section \<open>Network statistics\<close>

text \<open>
  C7: the density of the record is edges / (nodes \<sqdot> (nodes \<midarrow> 1)), and 0 below 2
  nodes, so 1/2 on 2 nodes and 1 edge; the average degree is the sum of the in-
  and out-degrees of the nodes divided by their number, and 0 without nodes;
  the connectivity flag is the answer of the connectivity check on the
  undirected projection, false when the check raises and false without nodes;
  with the library's check it is the connectivity of the projection.
\<close>

theorem network_stats_record:
  "ns_node_count (get_network_stats lib self) = number_of_nodes (source_graph self) \<and>
   ns_edge_count (get_network_stats lib self) = number_of_edges (source_graph self) \<and>
   ns_density (get_network_stats lib self) =
     (if number_of_nodes (source_graph self) < 2 then 0
      else real (number_of_edges (source_graph self)) /
           (real (number_of_nodes (source_graph self)) * (real (number_of_nodes (source_graph self)) - 1))) \<and>
   (number_of_nodes (source_graph self) = 2 \<and> number_of_edges (source_graph self) = 1 \<longrightarrow>
      ns_density (get_network_stats lib self) = 1 / 2) \<and>
   ns_avg_degree (get_network_stats lib self) =
     (if number_of_nodes (source_graph self) = 0 then 0
      else real (\<Sum>v \<leftarrow> node_ids (source_graph self).
                   in_degree (source_graph self) v + out_degree (source_graph self) v) /
           real (number_of_nodes (source_graph self))) \<and>
   ns_is_connected (get_network_stats lib self) =
     (0 < number_of_nodes (source_graph self) \<and>
      nx_is_connected lib (to_undirected (source_graph self)) = Inr True) \<and>
   (nx_is_connected lib (to_undirected (source_graph self)) = Inl e \<longrightarrow>
      \<not> ns_is_connected (get_network_stats lib self)) \<and>
   (nx_is_connected lib = networkx_is_connected \<longrightarrow>
      ns_is_connected (get_network_stats lib self) =
        (0 < number_of_nodes (source_graph self) \<and> connected (to_undirected (source_graph self))))"
proof -
  let ?g = "source_graph self"
  have d: "ns_density (get_network_stats lib self) =
     (if number_of_nodes ?g < 2 then 0
      else real (number_of_edges ?g) / (real (number_of_nodes ?g) * (real (number_of_nodes ?g) - 1)))"
    by (cases "nx_is_connected lib (to_undirected ?g)")
       (auto simp: get_network_stats_def Let_def nx_density_def)
  have a: "ns_avg_degree (get_network_stats lib self) =
     (if number_of_nodes ?g = 0 then 0
      else real (\<Sum>v \<leftarrow> node_ids ?g. in_degree ?g v + out_degree ?g v) / real (number_of_nodes ?g))"
    by (cases "nx_is_connected lib (to_undirected ?g)")
       (simp_all add: get_network_stats_def Let_def comp_def degree_def node_ids_def
          number_of_nodes_def)
  have c: "ns_is_connected (get_network_stats lib self) =
     (0 < number_of_nodes ?g \<and> nx_is_connected lib (to_undirected ?g) = Inr True)"
    by (cases "nx_is_connected lib (to_undirected ?g)")
       (auto simp: get_network_stats_def Let_def)
  have n: "ns_node_count (get_network_stats lib self) = number_of_nodes ?g"
    by (cases "nx_is_connected lib (to_undirected ?g)")
       (simp_all add: get_network_stats_def Let_def)
  have m: "ns_edge_count (get_network_stats lib self) = number_of_edges ?g"
    by (cases "nx_is_connected lib (to_undirected ?g)")
       (simp_all add: get_network_stats_def Let_def)
  have c': "nx_is_connected lib = networkx_is_connected \<longrightarrow>
      ns_is_connected (get_network_stats lib self) =
        (0 < number_of_nodes ?g \<and> connected (to_undirected ?g))"
    unfolding c by (auto simp: networkx_is_connected_def to_undirected_def number_of_nodes_def)
  have ex: "number_of_nodes ?g = 2 \<and> number_of_edges ?g = 1 \<longrightarrow>
      ns_density (get_network_stats lib self) = 1 / 2"
    unfolding d by simp
  show ?thesis
    using n m d ex a c c' by simp
qed

lemma two_node_graph_value:
  "two_node_graph = \<lparr>nodes = [(''A'', no_attrs), (''B'', no_attrs)], edges = [((''A'', ''B''), 5)]\<rparr>"
  by (simp add: two_node_graph_def add_edge_def add_node_def empty_graph_def Let_def
      update_attrs_def or_else_def no_attrs_def)

lemma connected_two_node: "connected (to_undirected two_node_graph)"
  by (auto simp: connected_def to_undirected_def edges_by_node_def node_ids_def
      two_node_graph_value adjacency_def add_undirected_edge_def Let_def intro: r_into_trancl')

theorem network_stats_record_witness:
  "ns_density (get_network_stats demo_library two_node_analyzer) = 1 / 2 \<and>
   ns_is_connected (get_network_stats demo_library two_node_analyzer) = True \<and>
   ns_is_connected (get_network_stats failing_library two_node_analyzer) = False"
proof -
  have n: "number_of_nodes (source_graph two_node_analyzer) = 2"
    by (simp add: two_node_analyzer_def two_node_graph_value number_of_nodes_def)
  have m: "number_of_edges (source_graph two_node_analyzer) = 1"
    by (simp add: two_node_analyzer_def two_node_graph_value number_of_edges_def)
  have f: "nx_is_connected failing_library (to_undirected (source_graph two_node_analyzer)) =
      Inl (Exn ''error'')"
    by (simp add: failing_library_def)
  note t = network_stats_record[of demo_library two_node_analyzer "Exn ''error''"]
  note u = network_stats_record[of failing_library two_node_analyzer "Exn ''error''"]
  have "ns_density (get_network_stats demo_library two_node_analyzer) = 1 / 2"
    using t n m by blast
  moreover have "\<not> ns_is_connected (get_network_stats failing_library two_node_analyzer)"
    using u f by blast
  moreover have "ns_is_connected (get_network_stats demo_library two_node_analyzer)"
  proof -
    have lib: "nx_is_connected demo_library = networkx_is_connected"
      by (simp add: demo_library_def)
    have pos: "0 < number_of_nodes (source_graph two_node_analyzer)"
      by (simp add: n)
    have conn: "connected (to_undirected (source_graph two_node_analyzer))"
      using connected_two_node by (simp add: two_node_analyzer_def)
    show ?thesis using t lib pos conn by blast
  qed
  ultimately show ?thesis by simp
qed

section \<open>The builders and the full analysis\<close>

lemma query_propagations_raises: "query_propagations st cutoff = Inl (Exn ''AttributeError'')"
  by (simp add: query_propagations_def propagation_relationship_def propagation_relationships_def)

lemma cutoff_date_in_window: "cutoff_date 0 30 = Inr (- 2592000000000)"
  by (simp add: cutoff_date_def timedelta_days_def datetime_min_def datetime_max_def)

lemma build_content_graph_raises:
  "\<exists>e. build_content_graph st now days_back min_similarity self =
         (self\<lparr>content_graph := empty_graph\<rparr>, Inl e)"
  by (cases "cutoff_date now days_back")
     (simp_all add: build_content_graph_def query_propagations_raises)

lemma build_source_graph_raises:
  "\<exists>e. build_source_graph st now days_back self =
         (self\<lparr>source_graph :=
             fold (\<lambda>s. add_node (s_id s) (source_node_attrs s)) (query_active_sources st) empty_graph\<rparr>,
          Inl e)"
  by (cases "cutoff_date now days_back")
     (simp_all add: build_source_graph_def query_propagations_raises Let_def)

lemma edges_add_node [simp]: "edges (add_node n a g) = edges g"
  by (simp add: add_node_def)

lemma edges_fold_add_node [simp]: "edges (fold (\<lambda>s. add_node (f s) (h s)) ss g) = edges g"
  by (induction ss arbitrary: g) auto

lemma node_ids_add_node [simp]: "set (node_ids (add_node n a g)) = insert n (set (node_ids g))"
  using dom_update[of n _ "nodes g"] by (simp add: add_node_def node_ids_def)

lemma node_ids_fold_sources:
  "set (node_ids (fold (\<lambda>s. add_node (s_id s) (source_node_attrs s)) ss g)) =
     s_id ` set ss \<union> set (node_ids g)"
  by (induction ss arbitrary: g) auto

lemma active_nodes_value:
  "fold (\<lambda>s. add_node (s_id s) (source_node_attrs s)) [demo_source ''A'' True, demo_source ''B'' True]
     empty_graph =
   \<lparr>nodes = [(''A'', \<lparr>a_name = Some ''A'', a_source_type = Some ''telegram'',
                      a_language = Some ''unknown'', a_is_doppelganger = Some False,
                      a_is_amplifier = Some False\<rparr>),
             (''B'', \<lparr>a_name = Some ''B'', a_source_type = Some ''telegram'',
                      a_language = Some ''unknown'', a_is_doppelganger = Some False,
                      a_is_amplifier = Some False\<rparr>)],
    edges = []\<rparr>"
  by (simp add: add_node_def empty_graph_def demo_source_def source_node_attrs_def update_attrs_def
      or_else_def no_attrs_def truthy_str_def)

lemma one_active_node_value:
  "fold (\<lambda>s. add_node (s_id s) (source_node_attrs s)) [demo_source ''A'' True] empty_graph =
   \<lparr>nodes = [(''A'', \<lparr>a_name = Some ''A'', a_source_type = Some ''telegram'',
                      a_language = Some ''unknown'', a_is_doppelganger = Some False,
                      a_is_amplifier = Some False\<rparr>)],
    edges = []\<rparr>"
  by (simp add: add_node_def empty_graph_def demo_source_def source_node_attrs_def update_attrs_def
      or_else_def no_attrs_def truthy_str_def)

text \<open>
  C1: on a store with one link from a content of the active source A to a
  content of the active source B, \<open>build_source_graph\<close> raises
  \<^verbatim>\<open>AttributeError\<close> while it builds the query of the links, after it has added
  the two nodes: the graph it leaves has no edge, where the claim promises the
  edge from A to B with weight 1. On every store the build ends with an
  exception and the graph it leaves has no edge.
\<close>

theorem source_graph_build_raises:
  "build_source_graph linked_store 0 30 init_analyzer =
     (init_analyzer\<lparr>source_graph :=
        \<lparr>nodes = [(''A'', \<lparr>a_name = Some ''A'', a_source_type = Some ''telegram'',
                           a_language = Some ''unknown'', a_is_doppelganger = Some False,
                           a_is_amplifier = Some False\<rparr>),
                  (''B'', \<lparr>a_name = Some ''B'', a_source_type = Some ''telegram'',
                           a_language = Some ''unknown'', a_is_doppelganger = Some False,
                           a_is_amplifier = Some False\<rparr>)],
         edges = []\<rparr>\<rparr>,
      Inl (Exn ''AttributeError'')) \<and>
   edge_data (source_graph (fst (build_source_graph linked_store 0 30 init_analyzer))) ''A'' ''B'' = None \<and>
   (\<exists>e. snd (build_source_graph st now days_back self) = Inl e) \<and>
   edges (source_graph (fst (build_source_graph st now days_back self))) = []"
proof -
  have act: "query_active_sources linked_store = [demo_source ''A'' True, demo_source ''B'' True]"
    by (simp add: query_active_sources_def linked_store_def demo_source_def)
  have v: "build_source_graph linked_store 0 30 init_analyzer =
     (init_analyzer\<lparr>source_graph :=
        \<lparr>nodes = [(''A'', \<lparr>a_name = Some ''A'', a_source_type = Some ''telegram'',
                           a_language = Some ''unknown'', a_is_doppelganger = Some False,
                           a_is_amplifier = Some False\<rparr>),
                  (''B'', \<lparr>a_name = Some ''B'', a_source_type = Some ''telegram'',
                           a_language = Some ''unknown'', a_is_doppelganger = Some False,
                           a_is_amplifier = Some False\<rparr>)],
         edges = []\<rparr>\<rparr>,
      Inl (Exn ''AttributeError''))"
  proof -
    have f: "fold (\<lambda>s. add_node (s_id s) (source_node_attrs s)) (query_active_sources linked_store)
        empty_graph =
      \<lparr>nodes = [(''A'', \<lparr>a_name = Some ''A'', a_source_type = Some ''telegram'',
                         a_language = Some ''unknown'', a_is_doppelganger = Some False,
                         a_is_amplifier = Some False\<rparr>),
                (''B'', \<lparr>a_name = Some ''B'', a_source_type = Some ''telegram'',
                         a_language = Some ''unknown'', a_is_doppelganger = Some False,
                         a_is_amplifier = Some False\<rparr>)],
       edges = []\<rparr>"
      unfolding act by (rule active_nodes_value)
    show ?thesis
      by (simp add: build_source_graph_def Let_def cutoff_date_in_window query_propagations_raises f)
  qed
  obtain e where e: "build_source_graph st now days_back self =
      (self\<lparr>source_graph :=
          fold (\<lambda>s. add_node (s_id s) (source_node_attrs s)) (query_active_sources st) empty_graph\<rparr>,
       Inl e)"
    using build_source_graph_raises by blast
  have g: "edges (source_graph (fst (build_source_graph st now days_back self))) = []"
    by (simp add: e empty_graph_def)
  have "edge_data (source_graph (fst (build_source_graph linked_store 0 30 init_analyzer))) ''A'' ''B'' = None"
    by (simp add: v edge_data_def)
  then show ?thesis using v e g by simp
qed

text \<open>
  C10: on a store where the active source A propagates to the inactive source
  B, \<open>build_source_graph\<close> raises \<^verbatim>\<open>AttributeError\<close> after it has added the node
  of A only: B is not a node of the graph it leaves, where the claim promises
  it as a node without attributes. On every store the nodes of the graph left
  are the active sources.
\<close>

theorem source_graph_build_leaves_out_inactive:
  "build_source_graph inactive_store 0 30 init_analyzer =
     (init_analyzer\<lparr>source_graph :=
        \<lparr>nodes = [(''A'', \<lparr>a_name = Some ''A'', a_source_type = Some ''telegram'',
                           a_language = Some ''unknown'', a_is_doppelganger = Some False,
                           a_is_amplifier = Some False\<rparr>)],
         edges = []\<rparr>\<rparr>,
      Inl (Exn ''AttributeError'')) \<and>
   ''B'' \<notin> set (node_ids (source_graph (fst (build_source_graph inactive_store 0 30 init_analyzer)))) \<and>
   set (node_ids (source_graph (fst (build_source_graph st now days_back self)))) =
     s_id ` set (query_active_sources st)"
proof -
  have act: "query_active_sources inactive_store = [demo_source ''A'' True]"
    by (simp add: query_active_sources_def inactive_store_def demo_source_def)
  have v: "build_source_graph inactive_store 0 30 init_analyzer =
     (init_analyzer\<lparr>source_graph :=
        \<lparr>nodes = [(''A'', \<lparr>a_name = Some ''A'', a_source_type = Some ''telegram'',
                           a_language = Some ''unknown'', a_is_doppelganger = Some False,
                           a_is_amplifier = Some False\<rparr>)],
         edges = []\<rparr>\<rparr>,
      Inl (Exn ''AttributeError''))"
  proof -
    have f: "fold (\<lambda>s. add_node (s_id s) (source_node_attrs s)) (query_active_sources inactive_store)
        empty_graph =
      \<lparr>nodes = [(''A'', \<lparr>a_name = Some ''A'', a_source_type = Some ''telegram'',
                         a_language = Some ''unknown'', a_is_doppelganger = Some False,
                         a_is_amplifier = Some False\<rparr>)],
       edges = []\<rparr>"
      unfolding act by (rule one_active_node_value)
    show ?thesis
      by (simp add: build_source_graph_def Let_def cutoff_date_in_window query_propagations_raises f)
  qed
  obtain e where e: "build_source_graph st now days_back self =
      (self\<lparr>source_graph :=
          fold (\<lambda>s. add_node (s_id s) (source_node_attrs s)) (query_active_sources st) empty_graph\<rparr>,
       Inl e)"
    using build_source_graph_raises by blast
  have n: "set (node_ids (source_graph (fst (build_source_graph st now days_back self)))) =
      s_id ` set (query_active_sources st)"
  proof -
    have "node_ids (empty_graph :: int digraph) = []"
      by (simp add: node_ids_def empty_graph_def)
    then show ?thesis
      unfolding e by (simp add: node_ids_fold_sources)
  qed
  have "''B'' \<notin> set (node_ids (source_graph (fst (build_source_graph inactive_store 0 30 init_analyzer))))"
    by (simp add: v node_ids_def)
  then show ?thesis using v n by simp
qed

text \<open>
  What does hold of the second half of C10: for a node without attributes the
  record of \<open>find_superspreaders\<close> has the node id as name, the source type
  \<^verbatim>\<open>unknown\<close> and the doppelganger flag false.
\<close>

lemma find_superspreaders_defaults:
  assumes "r \<in> set (find_superspreaders lib self (Some g) top_n)"
    and "node_attrs_of g (ss_id r) = no_attrs"
  shows "ss_name r = ss_id r \<and> ss_source_type r = ''unknown'' \<and> \<not> ss_is_doppelganger r"
proof -
  from in_find_superspreaders[OF assms(1)] obtain v where
    v: "r = superspreader_of g (try_pagerank lib g) (try_betweenness lib g) v" by blast
  have "ss_id r = v" by (simp add: v superspreader_of_fields)
  then have "node_attrs_of g v = no_attrs" using assms(2) by simp
  then show ?thesis
    by (simp add: v superspreader_of_def Let_def no_attrs_def)
qed

text \<open>
  C5: on a store with a link of similarity 0.9 and a link without similarity,
  and the threshold 0.5, \<open>build_content_graph\<close> raises \<^verbatim>\<open>AttributeError\<close> while
  it builds the query, before it reads a link: the graph it leaves is empty,
  where the claim promises an edge for each of the two links. On every store
  the build ends with an exception and the empty graph.
\<close>

theorem content_graph_build_raises:
  "build_content_graph similarity_store 0 30 0.5 init_analyzer =
     (init_analyzer\<lparr>content_graph := empty_graph\<rparr>, Inl (Exn ''AttributeError'')) \<and>
   edge_data (content_graph (fst (build_content_graph similarity_store 0 30 0.5 init_analyzer)))
     ''c1'' ''c2'' = None \<and>
   (\<exists>e. build_content_graph st now days_back min_similarity self =
         (self\<lparr>content_graph := empty_graph\<rparr>, Inl e))"
proof -
  have v: "build_content_graph similarity_store 0 30 0.5 init_analyzer =
     (init_analyzer\<lparr>content_graph := empty_graph\<rparr>, Inl (Exn ''AttributeError''))"
    by (simp add: build_content_graph_def cutoff_date_in_window query_propagations_raises)
  have "edge_data (content_graph (fst (build_content_graph similarity_store 0 30 0.5 init_analyzer)))
     ''c1'' ''c2'' = None"
    unfolding v by (simp add: edge_data_def empty_graph_def)
  then show ?thesis using v build_content_graph_raises by blast
qed

lemma run_full_analysis_raises:
  "\<exists>e. run_full_analysis env lib st clk days_back self =
         (self\<lparr>content_graph := empty_graph\<rparr>, Inl e)"
proof -
  obtain e where "build_content_graph st (now_content_graph clk) days_back 0.5 self =
      (self\<lparr>content_graph := empty_graph\<rparr>, Inl e)"
    using build_content_graph_raises by blast
  then have "run_full_analysis env lib st clk days_back self =
      (self\<lparr>content_graph := empty_graph\<rparr>, Inl e)"
    by (simp add: run_full_analysis_def)
  then show ?thesis by blast
qed

text \<open>
  C9: a full analysis of a store with one link, on an instance whose source
  graph holds two nodes from before, raises \<^verbatim>\<open>AttributeError\<close> in its first
  step: it clears the content graph, leaves the source graph as it was and
  produces no statistics, where the claim promises two runs with the same
  rebuilt graphs and statistics. On every input the run ends with an exception
  and has only cleared the content graph.
\<close>

theorem full_analysis_raises:
  "run_full_analysis demo_environment demo_library linked_store demo_clock 30 two_node_analyzer =
     (two_node_analyzer\<lparr>content_graph := empty_graph\<rparr>, Inl (Exn ''AttributeError'')) \<and>
   source_graph (fst (run_full_analysis demo_environment demo_library linked_store demo_clock 30
       two_node_analyzer)) = two_node_graph \<and>
   (\<exists>e. run_full_analysis env lib st clk days_back self =
         (self\<lparr>content_graph := empty_graph\<rparr>, Inl e))"
proof -
  have v: "run_full_analysis demo_environment demo_library linked_store demo_clock 30 two_node_analyzer =
     (two_node_analyzer\<lparr>content_graph := empty_graph\<rparr>, Inl (Exn ''AttributeError''))"
    by (simp add: run_full_analysis_def build_content_graph_def demo_clock_def cutoff_date_in_window
        query_propagations_raises)
  have "source_graph (fst (run_full_analysis demo_environment demo_library linked_store demo_clock 30
       two_node_analyzer)) = two_node_graph"
    unfolding v by (simp add: two_node_analyzer_def)
  then show ?thesis using v run_full_analysis_raises by blast
qed

section \<open>The community count of the statistics\<close>

text \<open>
  C8 as stated fails: on an instance whose source graph has three nodes, the
  community detection finds a partition with 2 distinct communities and the
  community count of the statistics record is 0.
\<close>

theorem community_count_counterexample:
  "ns_community_count (get_network_stats partition_library three_node_analyzer) = 0 \<and>
   detect_communities partition_library three_node_analyzer None =
     [(''A'', 0), (''B'', 0), (''C'', 1)] \<and>
   card (set (map snd (detect_communities partition_library three_node_analyzer None))) = 2"
proof -
  have c: "ns_community_count (get_network_stats lib a) = 0" for lib a
    by (cases "nx_is_connected lib (to_undirected (source_graph a))")
       (simp_all add: get_network_stats_def Let_def)
  have n: "length (nodes (source_graph three_node_analyzer)) = 3"
    by (simp add: three_node_analyzer_def add_node_def empty_graph_def)
  have p: "detect_communities partition_library three_node_analyzer None =
      [(''A'', 0), (''B'', 0), (''C'', 1)]"
    using n by (simp add: detect_communities_def partition_library_def failing_library_def
        to_undirected_def)
  show ?thesis
    by (simp add: c p card_insert_if)
qed

text \<open>
  C8 (as amended): \<open>get_network_stats\<close> takes no community count and does not
  call the community detection: the record it returns is the same whatever the
  partition function is, and its community count is 0.
\<close>

theorem stats_community_count_fixed:
  "ns_community_count (get_network_stats lib self) = 0 \<and>
   get_network_stats (lib\<lparr>best_partition := bp\<rparr>) self = get_network_stats lib self"
proof -
  have c: "ns_community_count (get_network_stats lib self) = 0"
    by (cases "nx_is_connected lib (to_undirected (source_graph self))")
       (simp_all add: get_network_stats_def Let_def)
  have i: "get_network_stats (lib\<lparr>best_partition := bp\<rparr>) self = get_network_stats lib self"
    by (simp add: get_network_stats_def Let_def)
  show ?thesis using c i by (rule conjI)
qed

theorem stats_community_count_fixed_witness:
  "ns_community_count (get_network_stats partition_library three_node_analyzer) = 0"
  by (rule stats_community_count_fixed[of partition_library three_node_analyzer, THEN conjunct1])

end
